theory Spec2Isabelle
  imports Main "HOL-Library.Word"
begin

unbundle bit_operations_syntax

section \<open>Fingerprint sensor API definitions (src/fpsensor/api.py)\<close>

subsection \<open>Exceptions\<close>

text \<open>
  Every exception the modelled functions can raise is a value.  Python raises
  \<open>OverflowError\<close> from \<open>int.to_bytes\<close>, and \<open>ValueError\<close> from four different
  places, which are kept apart by their messages:
  \<^item> \<open>MathDomainError\<close>: \<open>ValueError('math domain error')\<close>, raised by \<open>math.log2\<close>;
  \<^item> \<open>NotSupportedBySensor v\<close>: \<open>ValueError(f'Value {value} is not supported by the sensor.')\<close>;
  \<^item> \<open>NotCompatiblePacketSize v\<close>:
    \<open>ValueError(f'Value {value} is not a compatible packet size.')\<close>;
  \<^item> \<open>NotAValidMember v\<close>: the \<open>ValueError\<close> of an enumeration constructor called on
    a value no member has.
\<close>

datatype error =
    OverflowError
  | MathDomainError
  | NotSupportedBySensor int
  | NotCompatiblePacketSize int
  | NotAValidMember int

subsection \<open>Enumerations\<close>

text \<open>
  \<open>FpBaudrate\<close>, \<open>FpSecurity\<close> and \<open>FpPacketSize\<close> give every name a value of its
  own, so each name is a member: the members are the constructors of a datatype, the
  integer a member stands for is given by a \<open>_value\<close> function, and the members are
  listed in the order of the class body.  \<open>FpError\<close> repeats a value and is modelled
  from its class body, with the aliasing written out.
\<close>

text \<open>
  Modelled from the spec: \<open>has_value\<close> and the constructor call \<open>Cls(value)\<close> are
  inherited from the base class \<open>IntEnumMod\<close> of the external package \<open>embutils\<close>
  (on top of Python's \<open>IntEnum\<close>), whose source is not in the repository.  Following
  the spec ("one of the recognized enumerated values"), \<open>has_value\<close> holds exactly
  for the values of the declared members, and the constructor returns the first
  declared member with the value, raising \<open>ValueError\<close> when there is none.
\<close>

definition enum_has_value :: "('a \<Rightarrow> int) \<Rightarrow> 'a list \<Rightarrow> int \<Rightarrow> bool" where
  "enum_has_value val members v = (v \<in> set (map val members))"

definition enum_call :: "('a \<Rightarrow> int) \<Rightarrow> 'a list \<Rightarrow> int \<Rightarrow> error + 'a" where
  "enum_call val members v =
     (case find (\<lambda>m. val m = v) members of
        None \<Rightarrow> Inl (NotAValidMember v)
      | Some m \<Rightarrow> Inr m)"

subsubsection \<open>FpError\<close>

text \<open>
  The body of the class, name by name in its order, with the value each name is given.
  Python builds the members of an enumeration from the body: a name whose value an
  earlier name already has does not become a member of its own but an alias, that is,
  another name of the earlier member.  A member is written as the pair of its (first)
  name and its value.  \<open>FpError_by_value\<close> is the lookup \<open>FpError(value)\<close> among
  the members, \<open>FpError_by_name\<close> the attribute access \<open>FpError.NAME\<close>, which
  resolves aliases.
\<close>

fun enum_define :: "(string \<times> int) list \<Rightarrow> (string \<times> int) list \<Rightarrow> (string \<times> int) list" where
  "enum_define members [] = members"
| "enum_define members ((name, v) # body) =
     (if v \<in> set (map snd members) then enum_define members body
      else enum_define (members @ [(name, v)]) body)"

definition FpError_body :: "(string \<times> int) list" where
  "FpError_body =
     [(''SUCCESS'', 0x00),
      (''HANDSHAKE_SUCCESS'', 0x55),
      (''ERROR_INVALID_REGISTER'', 0x1A),
      (''ERROR_INVALID_CONFIGURATION'', 0x1B),
      (''ERROR_NOTEPAD_INVALID_PAGE'', 0x1C),
      (''ERROR_PACKET_TRANSMISSION'', 0x01),
      (''ERROR_PACKET_RECEPTION'', 0x0E),
      (''ERROR_PACKET_FAULTY'', 0xFE),
      (''ERROR_FINGER_NOT_IN_SENSOR'', 0x02),
      (''ERROR_FINGER_ENROLL_FAILED'', 0x03),
      (''ERROR_FINGER_MISMATCH'', 0x08),
      (''ERROR_FINGER_NOT_FOUND'', 0x09),
      (''ERROR_IMAGE_MESSY'', 0x06),
      (''ERROR_IMAGE_INVALID'', 0x15),
      (''ERROR_IMAGE_FEW_FEATURE_POINTS'', 0x07),
      (''ERROR_IMAGE_DOWNLOAD'', 0x0F),
      (''ERROR_CHARACTERISTICS_MISMATCH'', 0x0A),
      (''ERROR_TEMPLATE_INVALID_INDEX'', 0x0B),
      (''ERROR_TEMPLATE_LOAD'', 0x0C),
      (''ERROR_TEMPLATE_UPLOAD'', 0xFD),
      (''ERROR_TEMPLATE_DOWNLOAD'', 0x0D),
      (''ERROR_TEMPLATE_DELETE'', 0x10),
      (''ERROR_TEMPLATE_EMPTY'', 0x11),
      (''ERROR_FLASH'', 0x18),
      (''ERROR_DATABASE_FULL'', 0xFE),
      (''ERROR_TIMEOUT'', 0xFF),
      (''ERROR_UNDEFINED'', 0x19),
      (''ERROR_COMMUNICATION_PORT'', 0x1D),
      (''ERROR_ADDRESS'', 0x20),
      (''ERROR_PASSWORD'', 0x13),
      (''ERROR_PASSWORD_VERIFY'', 0x21)]"

definition FpError_members :: "(string \<times> int) list" where
  "FpError_members = enum_define [] FpError_body"

definition FpError_by_value :: "int \<Rightarrow> (string \<times> int) option" where
  "FpError_by_value v = find (\<lambda>m. snd m = v) FpError_members"

definition FpError_by_name :: "string \<Rightarrow> (string \<times> int) option" where
  "FpError_by_name name =
     (case map_of FpError_body name of None \<Rightarrow> None | Some v \<Rightarrow> FpError_by_value v)"

definition FpError_call :: "int \<Rightarrow> error + (string \<times> int)" where
  "FpError_call v =
     (case FpError_by_value v of None \<Rightarrow> Inl (NotAValidMember v) | Some m \<Rightarrow> Inr m)"

subsubsection \<open>FpBaudrate\<close>

datatype FpBaudrate =
    BAUDRATE_9600
  | BAUDRATE_19200
  | BAUDRATE_28800
  | BAUDRATE_34800
  | BAUDRATE_48000
  | BAUDRATE_57600
  | BAUDRATE_67200
  | BAUDRATE_76800
  | BAUDRATE_86400
  | BAUDRATE_96000
  | BAUDRATE_105600
  | BAUDRATE_115200

fun FpBaudrate_value :: "FpBaudrate \<Rightarrow> int" where
  "FpBaudrate_value BAUDRATE_9600 = 0x01"
| "FpBaudrate_value BAUDRATE_19200 = 0x02"
| "FpBaudrate_value BAUDRATE_28800 = 0x03"
| "FpBaudrate_value BAUDRATE_34800 = 0x04"
| "FpBaudrate_value BAUDRATE_48000 = 0x05"
| "FpBaudrate_value BAUDRATE_57600 = 0x06"
| "FpBaudrate_value BAUDRATE_67200 = 0x07"
| "FpBaudrate_value BAUDRATE_76800 = 0x08"
| "FpBaudrate_value BAUDRATE_86400 = 0x09"
| "FpBaudrate_value BAUDRATE_96000 = 0x0A"
| "FpBaudrate_value BAUDRATE_105600 = 0x0B"
| "FpBaudrate_value BAUDRATE_115200 = 0x0C"

definition FpBaudrate_members :: "FpBaudrate list" where
  "FpBaudrate_members =
     [BAUDRATE_9600, BAUDRATE_19200, BAUDRATE_28800, BAUDRATE_34800, BAUDRATE_48000,
      BAUDRATE_57600, BAUDRATE_67200, BAUDRATE_76800, BAUDRATE_86400, BAUDRATE_96000,
      BAUDRATE_105600, BAUDRATE_115200]"

definition FpBaudrate_has_value :: "int \<Rightarrow> bool" where
  "FpBaudrate_has_value v = enum_has_value FpBaudrate_value FpBaudrate_members v"

definition FpBaudrate_call :: "int \<Rightarrow> error + FpBaudrate" where
  "FpBaudrate_call v = enum_call FpBaudrate_value FpBaudrate_members v"

definition FpBaudrate_to_int :: "FpBaudrate \<Rightarrow> int" where
  "FpBaudrate_to_int self = FpBaudrate_value self * 9600"

text \<open>Python's \<open>//\<close> on integers is floor division, which is \<open>div\<close> on \<open>int\<close>.\<close>

definition FpBaudrate_from_int :: "int \<Rightarrow> error + FpBaudrate" where
  "FpBaudrate_from_int v =
     (if FpBaudrate_has_value v then FpBaudrate_call v
      else
        let val = v div 9600
        in if FpBaudrate_has_value val then FpBaudrate_call val
           else Inl (NotSupportedBySensor v))"

subsubsection \<open>FpSecurity\<close>

datatype FpSecurity =
    SECURITY_LVL1
  | SECURITY_LVL2
  | SECURITY_LVL3
  | SECURITY_LVL4
  | SECURITY_LVL5

fun FpSecurity_value :: "FpSecurity \<Rightarrow> int" where
  "FpSecurity_value SECURITY_LVL1 = 0x01"
| "FpSecurity_value SECURITY_LVL2 = 0x02"
| "FpSecurity_value SECURITY_LVL3 = 0x03"
| "FpSecurity_value SECURITY_LVL4 = 0x04"
| "FpSecurity_value SECURITY_LVL5 = 0x05"

definition FpSecurity_members :: "FpSecurity list" where
  "FpSecurity_members =
     [SECURITY_LVL1, SECURITY_LVL2, SECURITY_LVL3, SECURITY_LVL4, SECURITY_LVL5]"

definition FpSecurity_has_value :: "int \<Rightarrow> bool" where
  "FpSecurity_has_value v = enum_has_value FpSecurity_value FpSecurity_members v"

definition FpSecurity_call :: "int \<Rightarrow> error + FpSecurity" where
  "FpSecurity_call v = enum_call FpSecurity_value FpSecurity_members v"

subsubsection \<open>FpPacketSize\<close>

datatype FpPacketSize =
    PACKET_SIZE_32
  | PACKET_SIZE_64
  | PACKET_SIZE_128
  | PACKET_SIZE_256

fun FpPacketSize_value :: "FpPacketSize \<Rightarrow> int" where
  "FpPacketSize_value PACKET_SIZE_32 = 0x00"
| "FpPacketSize_value PACKET_SIZE_64 = 0x01"
| "FpPacketSize_value PACKET_SIZE_128 = 0x02"
| "FpPacketSize_value PACKET_SIZE_256 = 0x03"

definition FpPacketSize_members :: "FpPacketSize list" where
  "FpPacketSize_members = [PACKET_SIZE_32, PACKET_SIZE_64, PACKET_SIZE_128, PACKET_SIZE_256]"

definition FpPacketSize_has_value :: "int \<Rightarrow> bool" where
  "FpPacketSize_has_value v = enum_has_value FpPacketSize_value FpPacketSize_members v"

definition FpPacketSize_call :: "int \<Rightarrow> error + FpPacketSize" where
  "FpPacketSize_call v = enum_call FpPacketSize_value FpPacketSize_members v"

definition FpPacketSize_to_int :: "FpPacketSize \<Rightarrow> int" where
  "FpPacketSize_to_int self = 32 * 2 ^ nat (FpPacketSize_value self)"

text \<open>
  \<open>int(log2(x))\<close> for an integer \<open>x\<close>.  \<open>math.log2\<close> raises
  \<open>ValueError('math domain error')\<close> for \<open>x \<le> 0\<close>.  For \<open>x > 0\<close> the model returns
  the floor of the binary logarithm, computed on integers.  The source computes a
  floating-point logarithm and truncates it; the two agree wherever the callers below
  can tell them apart: for \<open>1 \<le> x \<le> 15\<close> the floating-point value lies strictly
  between two integers or is exact (at 1, 2, 4, 8), and for \<open>x \<ge> 16\<close> both results are
  at least 4, which no packet-size member has as its value.
\<close>

fun floor_log2 :: "nat \<Rightarrow> nat" where
  "floor_log2 n = (if n < 2 then 0 else Suc (floor_log2 (n div 2)))"

declare floor_log2.simps [simp del]

definition int_log2 :: "int \<Rightarrow> error + int" where
  "int_log2 x = (if x \<le> 0 then Inl MathDomainError else Inr (int (floor_log2 (nat x))))"

text \<open>Python's \<open>value >> 5\<close> on an integer of either sign is \<open>drop_bit 5\<close> (floor of \<open>value / 32\<close>).\<close>

definition FpPacketSize_from_int :: "int \<Rightarrow> error + FpPacketSize" where
  "FpPacketSize_from_int v =
     (if FpPacketSize_has_value v then FpPacketSize_call v
      else
        case int_log2 (drop_bit 5 v) of
          Inl e \<Rightarrow> Inl e
        | Inr val \<Rightarrow>
            if FpPacketSize_has_value val then FpPacketSize_call val
            else Inl (NotCompatiblePacketSize v))"

subsection \<open>Constants\<close>

definition ADDRESS :: int where
  "ADDRESS = 0xFFFFFFFF"

definition PASSWORD :: int where
  "PASSWORD = 0x00000000"

subsection \<open>Byte utilities\<close>

text \<open>
  A \<open>bytearray\<close> is a list of bytes.  \<open>int.to_bytes(length=size, byteorder='big',
  signed=False)\<close> raises \<open>OverflowError\<close> for a negative value and for a value that
  does not fit into \<open>size\<close> bytes; otherwise it returns exactly \<open>size\<close> bytes, the most
  significant first.
\<close>

type_synonym byte = "8 word"

fun big_endian :: "nat \<Rightarrow> int \<Rightarrow> byte list" where
  "big_endian 0 v = []"
| "big_endian (Suc n) v = big_endian n (v div 256) @ [word_of_int v]"

definition to_bytes :: "int \<Rightarrow> nat \<Rightarrow> error + byte list" where
  "to_bytes v size' =
     (if v < 0 \<or> 256 ^ size' \<le> v then Inl OverflowError else Inr (big_endian size' v))"

definition from_bytes :: "byte list \<Rightarrow> int" where
  "from_bytes data = foldl (\<lambda>acc b. acc * 256 + uint b) 0 data"

text \<open>The slice \<open>data[a:b]\<close> for \<open>0 \<le> a \<le> b\<close>; like Python's, it is cut at the end of the list.\<close>

definition slice :: "'a list \<Rightarrow> nat \<Rightarrow> nat \<Rightarrow> 'a list" where
  "slice xs a b = take (b - a) (drop a xs)"

subsection \<open>FpSystemParameters\<close>

text \<open>The field \<open>id\<close> of the dataclass is \<open>id'\<close> here, \<open>id\<close> being the identity function of HOL.\<close>

record FpSystemParameters =
  status :: int
  id' :: int
  address :: int
  capacity :: int
  packet :: FpPacketSize
  security :: FpSecurity
  baudrate :: FpBaudrate

definition FpSystemParameters_LENGTH :: nat where
  "FpSystemParameters_LENGTH = 16"

text \<open>
  Sequencing of calls that may raise: the first exception ends the evaluation.
  \<open>serialize\<close> evaluates its seven \<open>to_bytes\<close> calls from left to right and
  concatenates their results.
\<close>

definition and_then :: "error + 'a \<Rightarrow> ('a \<Rightarrow> error + 'b) \<Rightarrow> error + 'b" where
  "and_then r f = (case r of Inl e \<Rightarrow> Inl e | Inr x \<Rightarrow> f x)"

definition serialize :: "FpSystemParameters \<Rightarrow> error + byte list" where
  "serialize self =
     and_then (to_bytes (status self) 2) (\<lambda>b0.
     and_then (to_bytes (id' self) 2) (\<lambda>b1.
     and_then (to_bytes (capacity self) 2) (\<lambda>b2.
     and_then (to_bytes (FpSecurity_value (security self)) 2) (\<lambda>b3.
     and_then (to_bytes (address self) 2) (\<lambda>b4.
     and_then (to_bytes (FpPacketSize_value (packet self)) 2) (\<lambda>b5.
     and_then (to_bytes (FpBaudrate_value (baudrate self)) 2) (\<lambda>b6.
     Inr (b0 @ b1 @ b2 @ b3 @ b4 @ b5 @ b6))))))))"

text \<open>
  \<open>deserialize\<close> returns \<open>None\<close> or an object; the enumeration constructors it calls
  could raise, so the result is wrapped in the error type, as for every other function.
\<close>

definition deserialize :: "byte list \<Rightarrow> error + FpSystemParameters option" where
  "deserialize data =
     (if length data < FpSystemParameters_LENGTH then Inr None
      else
        let stat = from_bytes (slice data 0 2);
            ident = from_bytes (slice data 2 4);
            cap = from_bytes (slice data 4 6);
            sec = from_bytes (slice data 6 8);
            addr = from_bytes (slice data 8 12);
            pack = from_bytes (slice data 12 14);
            baud = from_bytes (slice data 14 16)
        in if \<not> FpSecurity_has_value sec then Inr None
           else if \<not> FpPacketSize_has_value pack then Inr None
           else if \<not> FpBaudrate_has_value baud then Inr None
           else
             and_then (FpSecurity_call sec) (\<lambda>security_m.
             and_then (FpPacketSize_call pack) (\<lambda>packet_m.
             and_then (FpBaudrate_call baud) (\<lambda>baudrate_m.
             Inr (Some \<lparr>status = 0x0F AND stat, id' = ident, address = addr,
                        capacity = cap, packet = packet_m, security = security_m,
                        baudrate = baudrate_m\<rparr>)))))"

text \<open>\<open>deserialize(serialize(p))\<close>: an exception of \<open>serialize\<close> propagates.\<close>

definition deserialize_serialize :: "FpSystemParameters \<Rightarrow> error + FpSystemParameters option" where
  "deserialize_serialize p = and_then (serialize p) deserialize"

text \<open>
  The layout the docstring of the class documents, written with the same \<open>to_bytes\<close>:
  status, id, library size and security level in 2 bytes each (bytes 0 to 7), the address
  in 4 bytes (8 to 11), packet size and baud rate in 2 bytes each (12 to 15).  It
  differs from \<open>serialize\<close> in the width of the address only.
\<close>

definition documented_block :: "FpSystemParameters \<Rightarrow> error + byte list" where
  "documented_block self =
     and_then (to_bytes (status self) 2) (\<lambda>b0.
     and_then (to_bytes (id' self) 2) (\<lambda>b1.
     and_then (to_bytes (capacity self) 2) (\<lambda>b2.
     and_then (to_bytes (FpSecurity_value (security self)) 2) (\<lambda>b3.
     and_then (to_bytes (address self) 4) (\<lambda>b4.
     and_then (to_bytes (FpPacketSize_value (packet self)) 2) (\<lambda>b5.
     and_then (to_bytes (FpBaudrate_value (baudrate self)) 2) (\<lambda>b6.
     Inr (b0 @ b1 @ b2 @ b3 @ b4 @ b5 @ b6))))))))"

section \<open>Properties\<close>

subsection \<open>Sequencing and enumeration lookups\<close>

lemma and_then_Inl: "and_then (Inl e) f = Inl e"
  by (simp add: and_then_def)

lemma and_then_Inr: "and_then (Inr x) f = f x"
  by (simp add: and_then_def)

lemma FpBaudrate_has_value_iff: "FpBaudrate_has_value v \<longleftrightarrow> 1 \<le> v \<and> v \<le> 12"
  unfolding FpBaudrate_has_value_def enum_has_value_def FpBaudrate_members_def
  by (simp) arith

lemma FpSecurity_has_value_iff: "FpSecurity_has_value v \<longleftrightarrow> 1 \<le> v \<and> v \<le> 5"
  unfolding FpSecurity_has_value_def enum_has_value_def FpSecurity_members_def
  by (simp) arith

lemma FpPacketSize_has_value_iff: "FpPacketSize_has_value v \<longleftrightarrow> 0 \<le> v \<and> v \<le> 3"
  unfolding FpPacketSize_has_value_def enum_has_value_def FpPacketSize_members_def
  by (simp) arith

lemma FpBaudrate_call_value: "FpBaudrate_call (FpBaudrate_value m) = Inr m"
  by (cases m) (simp_all add: FpBaudrate_call_def enum_call_def FpBaudrate_members_def)

lemma FpSecurity_call_value: "FpSecurity_call (FpSecurity_value m) = Inr m"
  by (cases m) (simp_all add: FpSecurity_call_def enum_call_def FpSecurity_members_def)

lemma FpPacketSize_call_value: "FpPacketSize_call (FpPacketSize_value m) = Inr m"
  by (cases m) (simp_all add: FpPacketSize_call_def enum_call_def FpPacketSize_members_def)

lemma FpBaudrate_has_value_member:
  "FpBaudrate_has_value v \<Longrightarrow> \<exists>m. FpBaudrate_value m = v"
  by (auto simp: FpBaudrate_has_value_def enum_has_value_def)

lemma FpSecurity_has_value_member:
  "FpSecurity_has_value v \<Longrightarrow> \<exists>m. FpSecurity_value m = v"
  by (auto simp: FpSecurity_has_value_def enum_has_value_def)

lemma FpPacketSize_has_value_member:
  "FpPacketSize_has_value v \<Longrightarrow> \<exists>m. FpPacketSize_value m = v"
  by (auto simp: FpPacketSize_has_value_def enum_has_value_def)

lemma FpBaudrate_value_range: "1 \<le> FpBaudrate_value m \<and> FpBaudrate_value m \<le> 12"
  by (cases m) simp_all

lemma FpPacketSize_value_range: "0 \<le> FpPacketSize_value m \<and> FpPacketSize_value m \<le> 3"
  by (cases m) simp_all

lemma FpSecurity_value_range: "1 \<le> FpSecurity_value m \<and> FpSecurity_value m \<le> 5"
  by (cases m) simp_all

lemma FpSecurity_call_has_value:
  "FpSecurity_has_value v \<Longrightarrow> \<exists>m. FpSecurity_call v = Inr m \<and> FpSecurity_value m = v"
  using FpSecurity_has_value_member [of v] FpSecurity_call_value by auto

lemma FpPacketSize_call_has_value:
  "FpPacketSize_has_value v \<Longrightarrow> \<exists>m. FpPacketSize_call v = Inr m \<and> FpPacketSize_value m = v"
  using FpPacketSize_has_value_member [of v] FpPacketSize_call_value by auto

lemma FpBaudrate_call_has_value:
  "FpBaudrate_has_value v \<Longrightarrow> \<exists>m. FpBaudrate_call v = Inr m \<and> FpBaudrate_value m = v"
  using FpBaudrate_has_value_member [of v] FpBaudrate_call_value by auto

subsection \<open>The integer logarithm\<close>

lemma floor_log2_upper: "n < 2 ^ Suc k \<Longrightarrow> floor_log2 n \<le> k"
proof (induction k arbitrary: n)
  case 0
  then show ?case by (simp add: floor_log2.simps)
next
  case (Suc k)
  show ?case
  proof (cases "n < 2")
    case True
    then show ?thesis by (simp add: floor_log2.simps)
  next
    case False
    from Suc.prems have "n div 2 < 2 ^ Suc k" by simp
    then have "floor_log2 (n div 2) \<le> k" by (rule Suc.IH)
    with False show ?thesis by (simp add: floor_log2.simps [of n])
  qed
qed

lemma floor_log2_lower: "2 ^ k \<le> n \<Longrightarrow> k \<le> floor_log2 n"
proof (induction k arbitrary: n)
  case 0
  then show ?case by simp
next
  case (Suc k)
  then have "2 ^ k \<le> n div 2" by simp
  then have "k \<le> floor_log2 (n div 2)" by (rule Suc.IH)
  moreover have "(2::nat) \<le> 2 ^ Suc k" by simp
  with Suc.prems have "\<not> n < 2" by linarith
  ultimately show ?case by (simp add: floor_log2.simps [of n])
qed

lemma floor_log2_pow: "floor_log2 (2 ^ k) = k"
  using floor_log2_upper [of "2 ^ k" k] floor_log2_lower [of k "2 ^ k"] by simp

subsection \<open>Baud-rate codes\<close>

lemma FpBaudrate_from_int_member:
  "FpBaudrate_from_int (FpBaudrate_to_int m) = Inr m"
proof -
  let ?c = "FpBaudrate_value m"
  have r: "1 \<le> ?c \<and> ?c \<le> 12" by (rule FpBaudrate_value_range)
  then have "\<not> FpBaudrate_has_value (?c * 9600)"
    by (simp add: FpBaudrate_has_value_iff)
  moreover have "?c * 9600 div 9600 = ?c" by simp
  moreover have "FpBaudrate_has_value ?c" using r by (simp add: FpBaudrate_has_value_iff)
  ultimately show ?thesis
    by (simp add: FpBaudrate_from_int_def FpBaudrate_to_int_def FpBaudrate_call_value)
qed

text \<open>
  Claim C7.  For every baud-rate code \<open>c\<close> in 1..12, the member with that code converts
  to the integer \<open>c * 9600\<close>, and \<open>from_int\<close> of that integer returns the same member:
  \<open>FpBaudrate.from_int(code.to_int()) == code\<close>.
\<close>

theorem FpBaudrate_from_int_to_int:
  assumes "1 \<le> c" and "c \<le> 12"
  shows "\<exists>code. FpBaudrate_call c = Inr code \<and> FpBaudrate_to_int code = c * 9600 \<and>
           FpBaudrate_from_int (FpBaudrate_to_int code) = Inr code"
proof -
  from assms have "FpBaudrate_has_value c" by (simp add: FpBaudrate_has_value_iff)
  then obtain m where m: "FpBaudrate_value m = c"
    using FpBaudrate_has_value_member by blast
  have "FpBaudrate_call c = Inr m" using FpBaudrate_call_value [of m] m by simp
  moreover have "FpBaudrate_to_int m = c * 9600" using m by (simp add: FpBaudrate_to_int_def)
  ultimately show ?thesis using FpBaudrate_from_int_member [of m] by blast
qed

theorem FpBaudrate_from_int_to_int_witness:
  "FpBaudrate_call 12 = Inr BAUDRATE_115200 \<and> FpBaudrate_to_int BAUDRATE_115200 = 115200 \<and>
   FpBaudrate_from_int 115200 = Inr BAUDRATE_115200"
proof -
  have "FpBaudrate_call 12 = Inr BAUDRATE_115200"
    by (simp add: FpBaudrate_call_def enum_call_def FpBaudrate_members_def)
  with FpBaudrate_from_int_to_int [of 12] show ?thesis by auto
qed

text \<open>
  Claim C3, as stated, fails: \<open>FpBaudrate.from_int(100000)\<close> does not raise.  100000 is
  not a member value, and \<open>100000 // 9600\<close> is 10, so the call returns
  \<open>BAUDRATE_96000\<close>.
\<close>

theorem FpBaudrate_from_int_100000:
  "FpBaudrate_from_int 100000 = Inr BAUDRATE_96000 \<and>
   FpBaudrate_from_int 100000 \<noteq> Inl (NotSupportedBySensor 100000)"
  by (simp add: FpBaudrate_from_int_def FpBaudrate_has_value_iff FpBaudrate_call_def
      enum_call_def FpBaudrate_members_def)

text \<open>
  Claim C3, amended.  \<open>FpBaudrate.from_int\<close> fails with the error for an unsupported
  value exactly when neither the value nor its floor quotient by 9600 is a code in
  1..12; every value in 9600..124799 (100000 among them) is accepted and converted to
  the member whose code is \<open>value // 9600\<close>.
\<close>

theorem FpBaudrate_from_int_unsupported:
  "(FpBaudrate_from_int v = Inl (NotSupportedBySensor v) \<longleftrightarrow>
      \<not> (1 \<le> v \<and> v \<le> 12) \<and> \<not> (1 \<le> v div 9600 \<and> v div 9600 \<le> 12)) \<and>
   (9600 \<le> v \<and> v < 124800 \<longrightarrow>
      (\<exists>code. FpBaudrate_from_int v = Inr code \<and> FpBaudrate_value code = v div 9600))"
proof (intro conjI impI)
  show "FpBaudrate_from_int v = Inl (NotSupportedBySensor v) \<longleftrightarrow>
      \<not> (1 \<le> v \<and> v \<le> 12) \<and> \<not> (1 \<le> v div 9600 \<and> v div 9600 \<le> 12)"
    unfolding FpBaudrate_has_value_iff [symmetric]
  proof (cases "FpBaudrate_has_value v")
    case True
    then obtain m where "FpBaudrate_value m = v"
      using FpBaudrate_has_value_member by blast
    then have "FpBaudrate_call v = Inr m" using FpBaudrate_call_value [of m] by simp
    with True show "FpBaudrate_from_int v = Inl (NotSupportedBySensor v) \<longleftrightarrow>
        \<not> FpBaudrate_has_value v \<and> \<not> FpBaudrate_has_value (v div 9600)"
      by (simp add: FpBaudrate_from_int_def)
  next
    case nh: False
    show "FpBaudrate_from_int v = Inl (NotSupportedBySensor v) \<longleftrightarrow>
        \<not> FpBaudrate_has_value v \<and> \<not> FpBaudrate_has_value (v div 9600)"
    proof (cases "FpBaudrate_has_value (v div 9600)")
      case True
      then obtain m where "FpBaudrate_value m = v div 9600"
        using FpBaudrate_has_value_member by blast
      then have "FpBaudrate_call (v div 9600) = Inr m"
        using FpBaudrate_call_value [of m] by simp
      with nh True show ?thesis by (simp add: FpBaudrate_from_int_def)
    next
      case False
      with nh show ?thesis by (simp add: FpBaudrate_from_int_def)
    qed
  qed
next
  assume a: "9600 \<le> v \<and> v < 124800"
  then have "1 \<le> v div 9600" and "v div 9600 \<le> 12" by arith+
  then have h: "FpBaudrate_has_value (v div 9600)" by (simp add: FpBaudrate_has_value_iff)
  then obtain m where m: "FpBaudrate_value m = v div 9600"
    using FpBaudrate_has_value_member by blast
  then have c: "FpBaudrate_call (v div 9600) = Inr m"
    using FpBaudrate_call_value [of m] by simp
  from a have "\<not> FpBaudrate_has_value v" by (simp add: FpBaudrate_has_value_iff)
  with h c m show "\<exists>code. FpBaudrate_from_int v = Inr code \<and> FpBaudrate_value code = v div 9600"
    by (simp add: FpBaudrate_from_int_def)
qed

theorem FpBaudrate_from_int_unsupported_witness:
  "FpBaudrate_from_int 124800 = Inl (NotSupportedBySensor 124800) \<and>
   FpBaudrate_from_int 5000 = Inl (NotSupportedBySensor 5000) \<and>
   (\<exists>code. FpBaudrate_from_int 100000 = Inr code \<and> FpBaudrate_value code = 10)"
  using FpBaudrate_from_int_unsupported [of 124800] FpBaudrate_from_int_unsupported [of 5000]
    FpBaudrate_from_int_unsupported [of 100000]
  by simp

subsection \<open>Packet-size codes\<close>

lemma FpPacketSize_from_int_member:
  "FpPacketSize_from_int (FpPacketSize_to_int m) = Inr m"
  by (cases m)
    (simp_all add: FpPacketSize_from_int_def FpPacketSize_to_int_def FpPacketSize_has_value_iff
      int_log2_def drop_bit_eq_div floor_log2.simps FpPacketSize_call_def enum_call_def
      FpPacketSize_members_def)

text \<open>
  Claim C8.  For every packet-size code \<open>c\<close> in 0..3, the member with that code converts
  to the integer \<open>32 * 2 ^ c\<close>, and \<open>from_int\<close> of that integer returns the same member:
  \<open>FpPacketSize.from_int(code.to_int()) == code\<close>.
\<close>

theorem FpPacketSize_from_int_to_int:
  assumes "0 \<le> c" and "c \<le> 3"
  shows "\<exists>code. FpPacketSize_call c = Inr code \<and> FpPacketSize_to_int code = 32 * 2 ^ nat c \<and>
           FpPacketSize_from_int (FpPacketSize_to_int code) = Inr code"
proof -
  from assms have "FpPacketSize_has_value c" by (simp add: FpPacketSize_has_value_iff)
  then obtain m where m: "FpPacketSize_value m = c"
    using FpPacketSize_has_value_member by blast
  have "FpPacketSize_call c = Inr m" using FpPacketSize_call_value [of m] m by simp
  moreover have "FpPacketSize_to_int m = 32 * 2 ^ nat c"
    using m by (simp add: FpPacketSize_to_int_def)
  ultimately show ?thesis using FpPacketSize_from_int_member [of m] by blast
qed

theorem FpPacketSize_from_int_to_int_witness:
  "FpPacketSize_call 3 = Inr PACKET_SIZE_256 \<and> FpPacketSize_to_int PACKET_SIZE_256 = 256 \<and>
   FpPacketSize_from_int 256 = Inr PACKET_SIZE_256"
proof -
  have "FpPacketSize_call 3 = Inr PACKET_SIZE_256"
    by (simp add: FpPacketSize_call_def enum_call_def FpPacketSize_members_def)
  with FpPacketSize_from_int_to_int [of 3] show ?thesis by auto
qed

text \<open>
  Claim C10.  For every integer in 4..31, \<open>FpPacketSize.from_int\<close> fails with the
  domain error of the logarithm (\<open>value >> 5\<close> is 0), not with the error for an
  incompatible packet size.
\<close>

theorem FpPacketSize_from_int_domain_error:
  assumes "4 \<le> v" and "v \<le> 31"
  shows "FpPacketSize_from_int v = Inl MathDomainError"
proof -
  from assms have "\<not> FpPacketSize_has_value v" by (simp add: FpPacketSize_has_value_iff)
  moreover from assms have "drop_bit 5 v = 0" by (simp add: drop_bit_eq_div)
  ultimately show ?thesis by (simp add: FpPacketSize_from_int_def int_log2_def)
qed

theorem FpPacketSize_from_int_domain_error_witness:
  "FpPacketSize_from_int 4 = Inl MathDomainError \<and> FpPacketSize_from_int 31 = Inl MathDomainError
   \<and> FpPacketSize_from_int 31 \<noteq> Inl (NotCompatiblePacketSize 31)"
  using FpPacketSize_from_int_domain_error [of 4] FpPacketSize_from_int_domain_error [of 31]
  by simp

text \<open>
  Claim C4, as stated, fails: \<open>FpPacketSize.from_int(100)\<close> does not raise.  100 is not
  a member value, \<open>100 >> 5\<close> is 3 and \<open>int(log2(3))\<close> is 1, so the call returns
  \<open>PACKET_SIZE_64\<close>.
\<close>

theorem FpPacketSize_from_int_100:
  "FpPacketSize_from_int 100 = Inr PACKET_SIZE_64 \<and>
   FpPacketSize_from_int 100 \<noteq> Inl (NotCompatiblePacketSize 100)"
  by (simp add: FpPacketSize_from_int_def FpPacketSize_has_value_iff int_log2_def
      drop_bit_eq_div floor_log2.simps FpPacketSize_call_def enum_call_def
      FpPacketSize_members_def)

text \<open>
  Claim C4, amended.  \<open>FpPacketSize.from_int\<close> fails with the error for an incompatible
  packet size exactly for the values from 512 on; every value in 32..511 (100 among
  them) is accepted and converted to the member whose code is the truncated binary
  logarithm of \<open>value >> 5\<close>.
\<close>

theorem FpPacketSize_from_int_unsupported:
  "(FpPacketSize_from_int v = Inl (NotCompatiblePacketSize v) \<longleftrightarrow> 512 \<le> v) \<and>
   (32 \<le> v \<and> v < 512 \<longrightarrow>
      (\<exists>code. FpPacketSize_from_int v = Inr code \<and>
         FpPacketSize_value code = int (floor_log2 (nat (drop_bit 5 v)))))"
proof (intro conjI impI)
  show "FpPacketSize_from_int v = Inl (NotCompatiblePacketSize v) \<longleftrightarrow> 512 \<le> v"
  proof (cases "FpPacketSize_has_value v")
    case True
    then obtain m where "FpPacketSize_value m = v"
      using FpPacketSize_has_value_member by blast
    then have "FpPacketSize_call v = Inr m" using FpPacketSize_call_value [of m] by simp
    with True show ?thesis
      by (simp add: FpPacketSize_from_int_def FpPacketSize_has_value_iff)
  next
    case nh: False
    show ?thesis
    proof (cases "drop_bit 5 v \<le> 0")
      case True
      then have "v < 32" by (simp add: drop_bit_eq_div) 
      with nh True show ?thesis by (simp add: FpPacketSize_from_int_def int_log2_def)
    next
      case pos: False
      let ?x = "nat (drop_bit 5 v)"
      show ?thesis
      proof (cases "512 \<le> v")
        case True
        then have "16 \<le> drop_bit 5 v" by (simp add: drop_bit_eq_div)
        then have "2 ^ 4 \<le> ?x" by simp
        then have "4 \<le> floor_log2 ?x" by (rule floor_log2_lower)
        then have "\<not> FpPacketSize_has_value (int (floor_log2 ?x))"
          by (simp add: FpPacketSize_has_value_iff)
        with nh pos True show ?thesis by (simp add: FpPacketSize_from_int_def int_log2_def)
      next
        case False
        then have "drop_bit 5 v < 16" by (simp add: drop_bit_eq_div)
        then have "?x < 2 ^ Suc 3" by simp
        then have "floor_log2 ?x \<le> 3" by (rule floor_log2_upper)
        then have h: "FpPacketSize_has_value (int (floor_log2 ?x))"
          by (simp add: FpPacketSize_has_value_iff)
        then obtain m where "FpPacketSize_value m = int (floor_log2 ?x)"
          using FpPacketSize_has_value_member by blast
        then have "FpPacketSize_call (int (floor_log2 ?x)) = Inr m"
          using FpPacketSize_call_value [of m] by simp
        with nh pos h False show ?thesis by (simp add: FpPacketSize_from_int_def int_log2_def)
      qed
    qed
  qed
next
  assume a: "32 \<le> v \<and> v < 512"
  let ?x = "nat (drop_bit 5 v)"
  from a have nh: "\<not> FpPacketSize_has_value v" by (simp add: FpPacketSize_has_value_iff)
  from a have "\<not> v div 32 \<le> 0" and "v div 32 < 16" by arith+
  then have pos: "\<not> drop_bit 5 v \<le> 0" and "drop_bit 5 v < 16"
    by (simp_all add: drop_bit_eq_div)
  note \<open>drop_bit 5 v < 16\<close>
  then have "?x < 2 ^ Suc 3" by simp
  then have "floor_log2 ?x \<le> 3" by (rule floor_log2_upper)
  then have h: "FpPacketSize_has_value (int (floor_log2 ?x))"
    by (simp add: FpPacketSize_has_value_iff)
  then obtain m where m: "FpPacketSize_value m = int (floor_log2 ?x)"
    using FpPacketSize_has_value_member by blast
  then have "FpPacketSize_call (int (floor_log2 ?x)) = Inr m"
    using FpPacketSize_call_value [of m] by simp
  with nh pos h m
  show "\<exists>code. FpPacketSize_from_int v = Inr code \<and>
         FpPacketSize_value code = int (floor_log2 (nat (drop_bit 5 v)))"
    by (simp add: FpPacketSize_from_int_def int_log2_def)
qed

theorem FpPacketSize_from_int_unsupported_witness:
  "FpPacketSize_from_int 512 = Inl (NotCompatiblePacketSize 512) \<and>
   FpPacketSize_from_int 511 \<noteq> Inl (NotCompatiblePacketSize 511) \<and>
   (\<exists>code. FpPacketSize_from_int 200 = Inr code \<and> FpPacketSize_value code = 2)"
proof -
  have "int (floor_log2 (nat (drop_bit 5 (200::int)))) = 2"
    by (simp add: drop_bit_eq_div floor_log2.simps)
  with FpPacketSize_from_int_unsupported [of 512] FpPacketSize_from_int_unsupported [of 511]
    FpPacketSize_from_int_unsupported [of 200]
  show ?thesis by simp
qed

subsection \<open>Device error codes\<close>

text \<open>
  The class body declares 31 names, all different; 30 of them become members, with
  pairwise distinct values.  The values of the declared names are distinct once
  \<open>ERROR_DATABASE_FULL\<close> is left out.
\<close>

lemma FpError_members_eq:
  "FpError_members =
     [(''SUCCESS'', 0x00),
      (''HANDSHAKE_SUCCESS'', 0x55),
      (''ERROR_INVALID_REGISTER'', 0x1A),
      (''ERROR_INVALID_CONFIGURATION'', 0x1B),
      (''ERROR_NOTEPAD_INVALID_PAGE'', 0x1C),
      (''ERROR_PACKET_TRANSMISSION'', 0x01),
      (''ERROR_PACKET_RECEPTION'', 0x0E),
      (''ERROR_PACKET_FAULTY'', 0xFE),
      (''ERROR_FINGER_NOT_IN_SENSOR'', 0x02),
      (''ERROR_FINGER_ENROLL_FAILED'', 0x03),
      (''ERROR_FINGER_MISMATCH'', 0x08),
      (''ERROR_FINGER_NOT_FOUND'', 0x09),
      (''ERROR_IMAGE_MESSY'', 0x06),
      (''ERROR_IMAGE_INVALID'', 0x15),
      (''ERROR_IMAGE_FEW_FEATURE_POINTS'', 0x07),
      (''ERROR_IMAGE_DOWNLOAD'', 0x0F),
      (''ERROR_CHARACTERISTICS_MISMATCH'', 0x0A),
      (''ERROR_TEMPLATE_INVALID_INDEX'', 0x0B),
      (''ERROR_TEMPLATE_LOAD'', 0x0C),
      (''ERROR_TEMPLATE_UPLOAD'', 0xFD),
      (''ERROR_TEMPLATE_DOWNLOAD'', 0x0D),
      (''ERROR_TEMPLATE_DELETE'', 0x10),
      (''ERROR_TEMPLATE_EMPTY'', 0x11),
      (''ERROR_FLASH'', 0x18),
      (''ERROR_TIMEOUT'', 0xFF),
      (''ERROR_UNDEFINED'', 0x19),
      (''ERROR_COMMUNICATION_PORT'', 0x1D),
      (''ERROR_ADDRESS'', 0x20),
      (''ERROR_PASSWORD'', 0x13),
      (''ERROR_PASSWORD_VERIFY'', 0x21)]"
  by (simp add: FpError_members_def FpError_body_def)

lemma FpError_members_distinct_values:
  "length FpError_members = 30 \<and> distinct (map snd FpError_members)"
  by (simp add: FpError_members_eq)

lemma FpError_body_names:
  "length FpError_body = 31 \<and> distinct (map fst FpError_body)"
  by (simp add: FpError_body_def)

lemma FpError_body_values_distinct_but_one:
  "distinct (map snd (remove1 (''ERROR_DATABASE_FULL'', 0xFE) FpError_body))"
  by (simp add: FpError_body_def)

text \<open>
  Claim C6 says that distinct named device errors carry distinct codes, so that a status
  byte identifies one failure.  The class body gives \<open>0xFE\<close> to both of the names
  \<open>ERROR_PACKET_FAULTY\<close> and \<open>ERROR_DATABASE_FULL\<close>, so the codes of the declared
  names are not distinct.  \<open>ERROR_DATABASE_FULL\<close> is therefore no member of its own but
  an alias: both names denote the member \<open>ERROR_PACKET_FAULTY\<close>, and the status byte
  \<open>0xFE\<close> is read as that member.
\<close>

theorem FpError_0xFE_ambiguous:
  "map_of FpError_body ''ERROR_PACKET_FAULTY'' = Some 0xFE \<and>
   map_of FpError_body ''ERROR_DATABASE_FULL'' = Some 0xFE \<and>
   \<not> distinct (map snd FpError_body) \<and>
   FpError_by_name ''ERROR_PACKET_FAULTY'' = Some (''ERROR_PACKET_FAULTY'', 0xFE) \<and>
   FpError_by_name ''ERROR_DATABASE_FULL'' = Some (''ERROR_PACKET_FAULTY'', 0xFE) \<and>
   FpError_call 0xFE = Inr (''ERROR_PACKET_FAULTY'', 0xFE) \<and>
   (''ERROR_DATABASE_FULL'', 0xFE) \<notin> set FpError_members"
proof -
  have b: "map_of FpError_body ''ERROR_PACKET_FAULTY'' = Some 0xFE"
    "map_of FpError_body ''ERROR_DATABASE_FULL'' = Some 0xFE"
    "\<not> distinct (map snd FpError_body)"
    by (simp_all add: FpError_body_def)
  have v: "FpError_by_value 0xFE = Some (''ERROR_PACKET_FAULTY'', 0xFE)"
    by (simp add: FpError_by_value_def FpError_members_eq)
  have n: "(''ERROR_DATABASE_FULL'', 0xFE) \<notin> set FpError_members"
    by (simp add: FpError_members_eq)
  from b v n show ?thesis by (simp add: FpError_by_name_def FpError_call_def)
qed

subsection \<open>Bytes\<close>

lemma length_big_endian: "length (big_endian n v) = n"
  by (induction n arbitrary: v) simp_all

lemma to_bytes_Inr_length: "to_bytes v n = Inr bs \<Longrightarrow> length bs = n"
  by (auto simp: to_bytes_def length_big_endian split: if_splits)

lemma to_bytes_cases: "to_bytes v n = Inl OverflowError \<or> (\<exists>bs. to_bytes v n = Inr bs)"
  by (simp add: to_bytes_def)

lemma to_bytes_in_range: "0 \<le> v \<Longrightarrow> v < 256 ^ n \<Longrightarrow> to_bytes v n = Inr (big_endian n v)"
  by (simp add: to_bytes_def)

lemma from_bytes_snoc: "from_bytes (xs @ [b]) = from_bytes xs * 256 + uint b"
  by (simp add: from_bytes_def)

lemma from_bytes_big_endian: "from_bytes (big_endian n v) = v mod 256 ^ n"
proof (induction n arbitrary: v)
  case 0
  then show ?case by (simp add: from_bytes_def)
next
  case (Suc n)
  have "uint (word_of_int v :: byte) = v mod 256"
    by (simp add: uint_word_of_int_eq take_bit_eq_mod)
  then have "from_bytes (big_endian (Suc n) v) = (v div 256) mod 256 ^ n * 256 + v mod 256"
    by (simp add: from_bytes_snoc Suc.IH)
  also have "\<dots> = v mod 256 ^ Suc n"
    using zmod_zmult2_eq [of "256 ^ n" v 256] by simp
  finally show ?case .
qed

lemma from_bytes_to_bytes: "to_bytes v n = Inr bs \<Longrightarrow> from_bytes bs = v"
  by (auto simp: to_bytes_def from_bytes_big_endian split: if_splits)

lemma slice_blocks:
  assumes "length b0 = 2" "length b1 = 2" "length b2 = 2" "length b3 = 2"
    "length b4 = 4" "length b5 = 2" "length b6 = 2"
  shows "slice (b0 @ b1 @ b2 @ b3 @ b4 @ b5 @ b6) 0 2 = b0"
    and "slice (b0 @ b1 @ b2 @ b3 @ b4 @ b5 @ b6) 2 4 = b1"
    and "slice (b0 @ b1 @ b2 @ b3 @ b4 @ b5 @ b6) 4 6 = b2"
    and "slice (b0 @ b1 @ b2 @ b3 @ b4 @ b5 @ b6) 6 8 = b3"
    and "slice (b0 @ b1 @ b2 @ b3 @ b4 @ b5 @ b6) 8 12 = b4"
    and "slice (b0 @ b1 @ b2 @ b3 @ b4 @ b5 @ b6) 12 14 = b5"
    and "slice (b0 @ b1 @ b2 @ b3 @ b4 @ b5 @ b6) 14 16 = b6"
  using assms by (simp_all add: slice_def)

lemma and_15_low_nibble: "0 \<le> s \<Longrightarrow> s \<le> 15 \<Longrightarrow> (0x0F::int) AND s = s"
proof -
  assume "0 \<le> s" "s \<le> 15"
  then have "take_bit 4 s = s" by (simp add: take_bit_int_eq_self)
  moreover have "(15::int) = mask 4" by (simp add: mask_eq_exp_minus_1)
  ultimately show ?thesis by (simp add: take_bit_eq_mask and.commute)
qed

subsection \<open>Serializing system parameters\<close>

lemma and_then_to_bytes_overflow:
  assumes "\<And>bs. f bs = Inl OverflowError"
  shows "and_then (to_bytes v n) f = Inl OverflowError"
  using to_bytes_cases [of v n] assms by (auto simp: and_then_Inl and_then_Inr)

lemma serialize_address_overflow:
  assumes "to_bytes (address p) 2 = Inl OverflowError"
  shows "serialize p = Inl OverflowError"
  unfolding serialize_def
  by (simp add: assms and_then_Inl and_then_to_bytes_overflow)

text \<open>
  Claim C9.  Whenever the address exceeds \<open>0xFFFF\<close>, \<open>serialize\<close> raises
  \<open>OverflowError\<close> instead of returning bytes, because the address is converted with
  \<open>size=2\<close>; this holds in particular for the default address \<open>ADDRESS = 0xFFFFFFFF\<close>,
  whatever the other fields are.
\<close>

theorem serialize_address_overflow_16:
  "(0xFFFF < address p \<longrightarrow> serialize p = Inl OverflowError) \<and>
   serialize (p\<lparr>address := ADDRESS\<rparr>) = Inl OverflowError"
proof (intro conjI impI)
  assume "0xFFFF < address p"
  then have "to_bytes (address p) 2 = Inl OverflowError" by (simp add: to_bytes_def)
  then show "serialize p = Inl OverflowError" by (rule serialize_address_overflow)
next
  have "to_bytes (address (p\<lparr>address := ADDRESS\<rparr>)) 2 = Inl OverflowError"
    by (simp add: to_bytes_def ADDRESS_def)
  then show "serialize (p\<lparr>address := ADDRESS\<rparr>) = Inl OverflowError"
    by (rule serialize_address_overflow)
qed

theorem serialize_address_overflow_16_witness:
  "serialize \<lparr>status = 0, id' = 0, address = 0xFFFFFFFF, capacity = 0, packet = PACKET_SIZE_32,
              security = SECURITY_LVL1, baudrate = BAUDRATE_9600\<rparr> = Inl OverflowError"
  using serialize_address_overflow_16
    [of "\<lparr>status = 0, id' = 0, address = 0xFFFFFFFF, capacity = 0, packet = PACKET_SIZE_32,
              security = SECURITY_LVL1, baudrate = BAUDRATE_9600\<rparr>"]
  by simp

lemma serialize_Inr_length:
  assumes "serialize p = Inr bs"
  shows "length bs = 14"
proof -
  from assms obtain b0 b1 b2 b3 b4 b5 b6 where
    t: "to_bytes (status p) 2 = Inr b0" "to_bytes (id' p) 2 = Inr b1"
       "to_bytes (capacity p) 2 = Inr b2" "to_bytes (FpSecurity_value (security p)) 2 = Inr b3"
       "to_bytes (address p) 2 = Inr b4" "to_bytes (FpPacketSize_value (packet p)) 2 = Inr b5"
       "to_bytes (FpBaudrate_value (baudrate p)) 2 = Inr b6"
    and bs: "bs = b0 @ b1 @ b2 @ b3 @ b4 @ b5 @ b6"
    unfolding serialize_def and_then_def by (auto split: sum.splits)
  from t have "length b0 = 2" "length b1 = 2" "length b2 = 2" "length b3 = 2"
    "length b4 = 2" "length b5 = 2" "length b6 = 2"
    by (simp_all add: to_bytes_Inr_length)
  with bs show ?thesis by simp
qed

text \<open>
  Claim C2 says that \<open>serialize\<close> returns exactly 16 bytes.  With all fields in range
  it returns 14 bytes: seven fields of 2 bytes each, the address among them.  For every
  value it either raises \<open>OverflowError\<close> or returns 14 bytes, never 16.
\<close>

theorem serialize_length_14:
  "serialize \<lparr>status = 0, id' = 0, address = 0, capacity = 0,
      packet = PACKET_SIZE_32, security = SECURITY_LVL1, baudrate = BAUDRATE_9600\<rparr>
     = Inr [0, 0, 0, 0, 0, 0, 0, 1, 0, 0, 0, 0, 0, 1]
   \<and> (serialize p = Inl OverflowError \<or> (\<exists>bs. serialize p = Inr bs \<and> length bs = 14))"
proof
  show "serialize \<lparr>status = 0, id' = 0, address = 0, capacity = 0,
      packet = PACKET_SIZE_32, security = SECURITY_LVL1, baudrate = BAUDRATE_9600\<rparr>
     = Inr [0, 0, 0, 0, 0, 0, 0, 1, 0, 0, 0, 0, 0, 1]"
    by (simp add: serialize_def to_bytes_def and_then_def numeral_2_eq_2)
  show "serialize p = Inl OverflowError \<or> (\<exists>bs. serialize p = Inr bs \<and> length bs = 14)"
  proof (cases "serialize p")
    case (Inl e)
    then have "e = OverflowError"
      unfolding serialize_def and_then_def
      by (auto simp: to_bytes_def split: sum.splits if_splits)
    with Inl show ?thesis by simp
  next
    case (Inr bs)
    then show ?thesis using serialize_Inr_length by blast
  qed
qed

subsection \<open>Deserializing system parameters\<close>

lemma deserialize_short: "length data < 16 \<Longrightarrow> deserialize data = Inr None"
  by (simp add: deserialize_def FpSystemParameters_LENGTH_def)

lemma deserialize_invalid:
  assumes "\<not> FpSecurity_has_value (from_bytes (slice data 6 8)) \<or>
           \<not> FpPacketSize_has_value (from_bytes (slice data 12 14)) \<or>
           \<not> FpBaudrate_has_value (from_bytes (slice data 14 16))"
  shows "deserialize data = Inr None"
  using assms by (auto simp: deserialize_def Let_def)

lemma deserialize_valid:
  assumes "\<not> length data < 16"
    and "FpSecurity_has_value (from_bytes (slice data 6 8))"
    and "FpPacketSize_has_value (from_bytes (slice data 12 14))"
    and "FpBaudrate_has_value (from_bytes (slice data 14 16))"
  shows "\<exists>s k b. deserialize data =
           Inr (Some \<lparr>status = 0x0F AND from_bytes (slice data 0 2),
                      id' = from_bytes (slice data 2 4),
                      address = from_bytes (slice data 8 12),
                      capacity = from_bytes (slice data 4 6),
                      packet = k, security = s, baudrate = b\<rparr>)
           \<and> FpSecurity_value s = from_bytes (slice data 6 8)
           \<and> FpPacketSize_value k = from_bytes (slice data 12 14)
           \<and> FpBaudrate_value b = from_bytes (slice data 14 16)"
proof -
  from assms(2) obtain s where s: "FpSecurity_call (from_bytes (slice data 6 8)) = Inr s"
    "FpSecurity_value s = from_bytes (slice data 6 8)"
    using FpSecurity_call_has_value by blast
  from assms(3) obtain k where k: "FpPacketSize_call (from_bytes (slice data 12 14)) = Inr k"
    "FpPacketSize_value k = from_bytes (slice data 12 14)"
    using FpPacketSize_call_has_value by blast
  from assms(4) obtain b where b: "FpBaudrate_call (from_bytes (slice data 14 16)) = Inr b"
    "FpBaudrate_value b = from_bytes (slice data 14 16)"
    using FpBaudrate_call_has_value by blast
  from assms s k b show ?thesis
    by (simp add: deserialize_def Let_def FpSystemParameters_LENGTH_def and_then_Inr)
qed

text \<open>
  Claim C5.  \<open>deserialize\<close> returns \<open>None\<close> for every buffer shorter than 16 bytes
  (so for one of 10 bytes); it returns \<open>None\<close> whenever the decoded security level,
  packet-size code or baud-rate code is not the value of a member; when it returns an
  object, the status of the object is the decoded status masked with \<open>0x0F\<close>; and it
  never raises.
\<close>

theorem deserialize_result:
  "(length data < 16 \<longrightarrow> deserialize data = Inr None) \<and>
   (\<not> FpSecurity_has_value (from_bytes (slice data 6 8)) \<or>
    \<not> FpPacketSize_has_value (from_bytes (slice data 12 14)) \<or>
    \<not> FpBaudrate_has_value (from_bytes (slice data 14 16)) \<longrightarrow> deserialize data = Inr None) \<and>
   (\<forall>p. deserialize data = Inr (Some p) \<longrightarrow> status p = 0x0F AND from_bytes (slice data 0 2)) \<and>
   (\<exists>r. deserialize data = Inr r)"
proof (intro conjI impI allI)
  assume "length data < 16"
  then show "deserialize data = Inr None" by (rule deserialize_short)
next
  assume "\<not> FpSecurity_has_value (from_bytes (slice data 6 8)) \<or>
    \<not> FpPacketSize_has_value (from_bytes (slice data 12 14)) \<or>
    \<not> FpBaudrate_has_value (from_bytes (slice data 14 16))"
  then show "deserialize data = Inr None" by (rule deserialize_invalid)
next
  fix p
  assume ok: "deserialize data = Inr (Some p)"
  have 1: "\<not> length data < 16" using ok deserialize_short [of data] by auto
  have 2: "FpSecurity_has_value (from_bytes (slice data 6 8)) \<and>
    FpPacketSize_has_value (from_bytes (slice data 12 14)) \<and>
    FpBaudrate_has_value (from_bytes (slice data 14 16))"
    using ok deserialize_invalid [of data] by auto
  from deserialize_valid [OF 1] 2 ok
  show "status p = 0x0F AND from_bytes (slice data 0 2)" by auto
next
  show "\<exists>r. deserialize data = Inr r"
  proof (cases "length data < 16")
    case True
    then show ?thesis by (simp add: deserialize_short)
  next
    case long: False
    show ?thesis
    proof (cases "FpSecurity_has_value (from_bytes (slice data 6 8)) \<and>
        FpPacketSize_has_value (from_bytes (slice data 12 14)) \<and>
        FpBaudrate_has_value (from_bytes (slice data 14 16))")
      case True
      with deserialize_valid [OF long] show ?thesis by blast
    next
      case False
      then show ?thesis using deserialize_invalid [of data] by blast
    qed
  qed
qed

theorem deserialize_result_witness:
  "deserialize [0, 0, 0, 0, 0, 0, 0, 0, 0, 0] = Inr None \<and>
   deserialize [0, 0x35, 0, 1, 0, 2, 0, 6, 0, 0, 0, 4, 0, 1, 0, 6] = Inr None \<and>
   deserialize [0, 0x35, 0, 1, 0, 2, 0, 3, 0, 0, 0, 4, 0, 4, 0, 6] = Inr None \<and>
   deserialize [0, 0x35, 0, 1, 0, 2, 0, 3, 0, 0, 0, 4, 0, 1, 0, 13] = Inr None \<and>
   (\<exists>p. deserialize [0, 0x35, 0, 1, 0, 2, 0, 3, 0, 0, 0, 4, 0, 1, 0, 6] = Inr (Some p) \<and>
        status p = 5)"
proof -
  have ok: "deserialize [0, 0x35, 0, 1, 0, 2, 0, 3, 0, 0, 0, 4, 0, 1, 0, 6] =
      Inr (Some \<lparr>status = 5, id' = 1, address = 4, capacity = 2, packet = PACKET_SIZE_64,
                 security = SECURITY_LVL3, baudrate = BAUDRATE_57600\<rparr>)"
    by (simp add: deserialize_def FpSystemParameters_LENGTH_def Let_def slice_def from_bytes_def
        FpSecurity_has_value_iff FpPacketSize_has_value_iff FpBaudrate_has_value_iff
        FpSecurity_call_def FpPacketSize_call_def FpBaudrate_call_def enum_call_def
        FpSecurity_members_def FpPacketSize_members_def FpBaudrate_members_def and_then_Inr)
  have v: "from_bytes (slice [0, 0x35, 0, 1, 0, 2, 0, 3, 0, 0, 0, 4, 0, 1, 0, 6 :: byte] 0 2) = 0x35"
    "from_bytes (slice [0, 0x35, 0, 1, 0, 2, 0, 6, 0, 0, 0, 4, 0, 1, 0, 6 :: byte] 6 8) = 6"
    "from_bytes (slice [0, 0x35, 0, 1, 0, 2, 0, 3, 0, 0, 0, 4, 0, 4, 0, 6 :: byte] 12 14) = 4"
    "from_bytes (slice [0, 0x35, 0, 1, 0, 2, 0, 3, 0, 0, 0, 4, 0, 1, 0, 13 :: byte] 14 16) = 13"
    by (simp_all add: slice_def from_bytes_def)
  have a: "(0x0F::int) AND 0x35 = 5" by simp
  show ?thesis
    using deserialize_result [of "[0, 0, 0, 0, 0, 0, 0, 0, 0, 0]"]
      deserialize_result [of "[0, 0x35, 0, 1, 0, 2, 0, 6, 0, 0, 0, 4, 0, 1, 0, 6]"]
      deserialize_result [of "[0, 0x35, 0, 1, 0, 2, 0, 3, 0, 0, 0, 4, 0, 4, 0, 6]"]
      deserialize_result [of "[0, 0x35, 0, 1, 0, 2, 0, 3, 0, 0, 0, 4, 0, 1, 0, 13]"]
      deserialize_result [of "[0, 0x35, 0, 1, 0, 2, 0, 3, 0, 0, 0, 4, 0, 1, 0, 6]"]
      ok v a
    by (simp add: FpSecurity_has_value_iff FpPacketSize_has_value_iff FpBaudrate_has_value_iff)
qed

text \<open>
  \<open>deserialize\<close> reads the documented layout back: for an object whose status fits the
  low nibble and whose other integers fit their fields, it returns the object from the
  16 bytes of \<open>documented_block\<close>.
\<close>

lemma deserialize_documented_block:
  assumes "0 \<le> status p" "status p \<le> 0x0F"
    and "0 \<le> id' p" "id' p \<le> 0xFFFF"
    and "0 \<le> capacity p" "capacity p \<le> 0xFFFF"
    and "0 \<le> address p" "address p \<le> 0xFFFFFFFF"
  shows "\<exists>bs. documented_block p = Inr bs \<and> length bs = 16 \<and> deserialize bs = Inr (Some p)"
proof -
  define b0 where "b0 = big_endian 2 (status p)"
  define b1 where "b1 = big_endian 2 (id' p)"
  define b2 where "b2 = big_endian 2 (capacity p)"
  define b3 where "b3 = big_endian 2 (FpSecurity_value (security p))"
  define b4 where "b4 = big_endian 4 (address p)"
  define b5 where "b5 = big_endian 2 (FpPacketSize_value (packet p))"
  define b6 where "b6 = big_endian 2 (FpBaudrate_value (baudrate p))"
  define bs where "bs = b0 @ b1 @ b2 @ b3 @ b4 @ b5 @ b6"
  note bdefs = b0_def b1_def b2_def b3_def b4_def b5_def b6_def
  have t: "to_bytes (status p) 2 = Inr b0" "to_bytes (id' p) 2 = Inr b1"
    "to_bytes (capacity p) 2 = Inr b2" "to_bytes (address p) 4 = Inr b4"
    using assms by (simp_all add: to_bytes_def bdefs)
  have e: "to_bytes (FpSecurity_value (security p)) 2 = Inr b3"
    "to_bytes (FpPacketSize_value (packet p)) 2 = Inr b5"
    "to_bytes (FpBaudrate_value (baudrate p)) 2 = Inr b6"
    using FpSecurity_value_range [of "security p"] FpPacketSize_value_range [of "packet p"]
      FpBaudrate_value_range [of "baudrate p"]
    by (simp_all add: to_bytes_def bdefs)
  have block: "documented_block p = Inr bs"
    by (simp add: documented_block_def t e and_then_Inr bs_def)
  have len: "length b0 = 2" "length b1 = 2" "length b2 = 2" "length b3 = 2"
    "length b4 = 4" "length b5 = 2" "length b6 = 2"
    by (simp_all add: bdefs length_big_endian)
  then have len16: "length bs = 16" by (simp add: bs_def)
  have v: "from_bytes b0 = status p" "from_bytes b1 = id' p" "from_bytes b2 = capacity p"
    "from_bytes b3 = FpSecurity_value (security p)" "from_bytes b4 = address p"
    "from_bytes b5 = FpPacketSize_value (packet p)"
    "from_bytes b6 = FpBaudrate_value (baudrate p)"
    using t e by (simp_all add: from_bytes_to_bytes)
  have hv: "FpSecurity_has_value (FpSecurity_value (security p))"
    "FpPacketSize_has_value (FpPacketSize_value (packet p))"
    "FpBaudrate_has_value (FpBaudrate_value (baudrate p))"
    using FpSecurity_value_range [of "security p"] FpPacketSize_value_range [of "packet p"]
      FpBaudrate_value_range [of "baudrate p"]
    by (simp_all add: FpSecurity_has_value_iff FpPacketSize_has_value_iff
        FpBaudrate_has_value_iff)
  have m: "0x0F AND status p = status p" using assms by (simp add: and_15_low_nibble)
  have "deserialize bs = Inr (Some p)"
    unfolding deserialize_def bs_def Let_def slice_blocks [OF len] v
    using len hv m
    by (simp add: FpSystemParameters_LENGTH_def FpSecurity_call_value FpPacketSize_call_value
        FpBaudrate_call_value and_then_Inr)
  with block len16 show ?thesis by blast
qed

text \<open>
  \<open>serialize\<close> never returns more than 14 bytes, which \<open>deserialize\<close> rejects as too
  short.
\<close>

lemma deserialize_serialize_never_roundtrips:
  "deserialize_serialize p = Inl OverflowError \<or> deserialize_serialize p = Inr None"
proof (cases "serialize p")
  case (Inl e)
  then have "e = OverflowError"
    unfolding serialize_def and_then_def
    by (auto simp: to_bytes_def split: sum.splits if_splits)
  with Inl show ?thesis by (simp add: deserialize_serialize_def and_then_Inl)
next
  case (Inr bs)
  then have "length bs = 14" by (rule serialize_Inr_length)
  with Inr show ?thesis
    by (simp add: deserialize_serialize_def and_then_Inr deserialize_def
        FpSystemParameters_LENGTH_def)
qed

text \<open>
  Claim C1 says that \<open>deserialize(serialize(p)) == p\<close>.  For the object with status 0,
  id 0, address 0, capacity 0 and the first member of each enumeration the result is
  \<open>None\<close>, and for no object at all is the result the object itself.
\<close>

theorem deserialize_serialize_fails:
  "deserialize_serialize \<lparr>status = 0, id' = 0, address = 0, capacity = 0,
      packet = PACKET_SIZE_32, security = SECURITY_LVL1, baudrate = BAUDRATE_9600\<rparr> = Inr None
   \<and> deserialize_serialize p \<noteq> Inr (Some p)"
proof
  show "deserialize_serialize \<lparr>status = 0, id' = 0, address = 0, capacity = 0,
      packet = PACKET_SIZE_32, security = SECURITY_LVL1, baudrate = BAUDRATE_9600\<rparr> = Inr None"
    by (simp add: deserialize_serialize_def serialize_def to_bytes_def and_then_def
        numeral_2_eq_2 deserialize_def FpSystemParameters_LENGTH_def)
  show "deserialize_serialize p \<noteq> Inr (Some p)"
    using deserialize_serialize_never_roundtrips [of p] by auto
qed

end
